theory Spec2Isabelle
  imports Complex_Main
begin

section \<open>Options strategies library: pricing engine and strategy aggregator\<close>

text \<open>
  A shallow embedding of \<^verbatim>\<open>src/api/strategies.py\<close>: the dataclasses
  \<^verbatim>\<open>MarketParams\<close>, \<^verbatim>\<open>OptionLeg\<close> and \<^verbatim>\<open>StockLeg\<close>, the static methods of
  \<^verbatim>\<open>BlackScholes\<close> and the methods of \<^verbatim>\<open>OptionsStrategy\<close>.

  Numbers. Python's \<^verbatim>\<open>float\<close> is modelled by \<^typ>\<open>real\<close> and \<^verbatim>\<open>int\<close> by
  \<^typ>\<open>int\<close>: the development is about the formulas the code evaluates, in exact
  arithmetic, and says nothing about rounding, infinities or NaN. The formulas of
  the pricing engine are defined over the reals for a positive spot and strike
  and, when the time to expiry is positive, a positive volatility; elsewhere the
  source divides by zero or takes the logarithm of a non-positive number. The
  statements on the pricing engine assume that domain. The statements on the
  aggregator hold for every strategy and say how the values of the legs are
  combined, not what a formula yields outside its domain.

  Tags. The option kind and the position are Python strings in the source and
  are strings here, so that a tag other than \<^verbatim>\<open>'call'\<close>, \<^verbatim>\<open>'put'\<close>,
  \<^verbatim>\<open>'long'\<close>, \<^verbatim>\<open>'short'\<close> is an input of the model as it is of the code.
\<close>

subsection \<open>Data structures\<close>

record MarketParams =
  risk_free_rate :: real
  volatility :: real
  dividend_yield :: real
  days_to_expiration :: int

text \<open>The field defaults of the dataclass.\<close>

definition MarketParams_default :: MarketParams where
  "MarketParams_default =
     \<lparr>risk_free_rate = 5 / 100, volatility = 25 / 100, dividend_yield = 0,
      days_to_expiration = 30\<rparr>"

record OptionLeg =
  option_type :: string
  position :: string
  strike :: real
  premium :: real

record StockLeg =
  stock_position :: string
  price :: real
  quantity :: int

subsection \<open>The standard normal distribution\<close>

text \<open>
  \<^verbatim>\<open>scipy.stats.norm\<close> is a library of the source, not part of it. Its density
  \<^verbatim>\<open>norm.pdf\<close> is the closed formula below. Its distribution function
  \<^verbatim>\<open>norm.cdf\<close> is the normalised primitive of the Gaussian kernel
  \<open>exp (- t\<^sup>2 / 2)\<close>: \<open>gauss_int x\<close> is the primitive that vanishes at \<open>0\<close>, given
  by its power series
  \<open>x - x\<^sup>3 / 6 + x\<^sup>5 / 40 - \<dots> = \<Sum>k. (-1)\<^sup>k x\<^bsup>2k+1\<^esup> / (2\<^sup>k k! (2k+1))\<close>,
  \<open>gauss_half\<close> is its limit at infinity (the mass of the kernel over the positive
  half line), and the distribution function is one half plus the mass between
  \<open>0\<close> and \<open>x\<close> divided by the whole mass \<open>2 * gauss_half\<close>.
\<close>

definition norm_pdf :: "real \<Rightarrow> real" where
  "norm_pdf x = exp (- x\<^sup>2 / 2) / sqrt (2 * pi)"

definition gauss_coeff :: "nat \<Rightarrow> real" where
  "gauss_coeff n =
     (if even n then 0
      else (- 1) ^ ((n - 1) div 2) / (2 ^ ((n - 1) div 2) * fact ((n - 1) div 2) * real n))"

definition gauss_int :: "real \<Rightarrow> real" where
  "gauss_int x = (\<Sum>n. gauss_coeff n * x ^ n)"

definition gauss_half :: real where
  "gauss_half = Sup (range gauss_int)"

definition norm_cdf :: "real \<Rightarrow> real" where
  "norm_cdf x = 1 / 2 + gauss_int x / (2 * gauss_half)"

subsection \<open>Black-Scholes pricing engine\<close>

text \<open>
  The static methods of \<^verbatim>\<open>BlackScholes\<close>, with the arguments in the order of the
  source: \<open>S K T r sigma\<close>, then the option type where there is one, then \<open>q\<close>.
\<close>

definition d1 :: "real \<Rightarrow> real \<Rightarrow> real \<Rightarrow> real \<Rightarrow> real \<Rightarrow> real \<Rightarrow> real" where
  "d1 S K T r sigma q =
     (ln (S / K) + (r - q + (1 / 2) * sigma\<^sup>2) * T) / (sigma * sqrt T)"

definition d2 :: "real \<Rightarrow> real \<Rightarrow> real \<Rightarrow> real \<Rightarrow> real \<Rightarrow> real \<Rightarrow> real" where
  "d2 S K T r sigma q = d1 S K T r sigma q - sigma * sqrt T"

definition call_price :: "real \<Rightarrow> real \<Rightarrow> real \<Rightarrow> real \<Rightarrow> real \<Rightarrow> real \<Rightarrow> real" where
  "call_price S K T r sigma q =
     (if T \<le> 0 \<or> sigma \<le> 0 then max (S - K) 0
      else
        let call = S * exp (- q * T) * norm_cdf (d1 S K T r sigma q)
                   - K * exp (- r * T) * norm_cdf (d2 S K T r sigma q)
        in max call 0)"

definition put_price :: "real \<Rightarrow> real \<Rightarrow> real \<Rightarrow> real \<Rightarrow> real \<Rightarrow> real \<Rightarrow> real" where
  "put_price S K T r sigma q =
     (if T \<le> 0 \<or> sigma \<le> 0 then max (K - S) 0
      else
        let put = K * exp (- r * T) * norm_cdf (- d2 S K T r sigma q)
                  - S * exp (- q * T) * norm_cdf (- d1 S K T r sigma q)
        in max put 0)"

definition delta :: "real \<Rightarrow> real \<Rightarrow> real \<Rightarrow> real \<Rightarrow> real \<Rightarrow> string \<Rightarrow> real \<Rightarrow> real" where
  "delta S K T r sigma opt q =
     (if T \<le> 0 then (if S > K \<and> opt = ''call'' then 1 else 0)
      else if opt = ''call'' then exp (- q * T) * norm_cdf (d1 S K T r sigma q)
      else - exp (- q * T) * norm_cdf (- d1 S K T r sigma q))"

definition gamma :: "real \<Rightarrow> real \<Rightarrow> real \<Rightarrow> real \<Rightarrow> real \<Rightarrow> real \<Rightarrow> real" where
  "gamma S K T r sigma q =
     (if T \<le> 0 then 0
      else exp (- q * T) * norm_pdf (d1 S K T r sigma q) / (S * sigma * sqrt T))"

definition theta :: "real \<Rightarrow> real \<Rightarrow> real \<Rightarrow> real \<Rightarrow> real \<Rightarrow> string \<Rightarrow> real \<Rightarrow> real" where
  "theta S K T r sigma opt q =
     (if T \<le> 0 then 0
      else
        let term1 = - (S * norm_pdf (d1 S K T r sigma q) * sigma * exp (- q * T))
                      / (2 * sqrt T)
        in if opt = ''call'' then
             let term2 = r * K * exp (- r * T) * norm_cdf (d2 S K T r sigma q);
                 term3 = - q * S * exp (- q * T) * norm_cdf (d1 S K T r sigma q)
             in (term1 - term2 + term3) / 365
           else
             let term2 = r * K * exp (- r * T) * norm_cdf (- d2 S K T r sigma q);
                 term3 = q * S * exp (- q * T) * norm_cdf (- d1 S K T r sigma q)
             in (term1 + term2 - term3) / 365)"

definition vega :: "real \<Rightarrow> real \<Rightarrow> real \<Rightarrow> real \<Rightarrow> real \<Rightarrow> real \<Rightarrow> real" where
  "vega S K T r sigma q =
     (if T \<le> 0 then 0
      else S * exp (- q * T) * norm_pdf (d1 S K T r sigma q) * sqrt T / 100)"

definition rho :: "real \<Rightarrow> real \<Rightarrow> real \<Rightarrow> real \<Rightarrow> real \<Rightarrow> string \<Rightarrow> real \<Rightarrow> real" where
  "rho S K T r sigma opt q =
     (if T \<le> 0 then 0
      else if opt = ''call'' then
        K * T * exp (- r * T) * norm_cdf (d2 S K T r sigma q) / 100
      else - K * T * exp (- r * T) * norm_cdf (- d2 S K T r sigma q) / 100)"

subsection \<open>Strategy aggregator\<close>

record OptionsStrategy =
  name :: string
  option_legs :: "OptionLeg list"
  stock_legs :: "StockLeg list"
  market_params :: MarketParams

text \<open>
  \<^verbatim>\<open>__init__\<close>: both leg lists start empty; \<^verbatim>\<open>market_params or MarketParams()\<close>
  takes the defaults when the argument is \<^verbatim>\<open>None\<close> (a dataclass instance is
  always truthy).
\<close>

definition init :: "string \<Rightarrow> MarketParams option \<Rightarrow> OptionsStrategy" where
  "init nm mp =
     \<lparr>name = nm, option_legs = [], stock_legs = [],
      market_params = (case mp of None \<Rightarrow> MarketParams_default | Some m \<Rightarrow> m)\<rparr>"

text \<open>
  The two mutators append to a list of the strategy and return nothing; the model
  returns the updated strategy. Neither has a check or a \<^verbatim>\<open>raise\<close>. The
  quantity of a stock leg defaults to \<open>100\<close> in the source and is an argument here.
\<close>

definition add_option_leg ::
  "string \<Rightarrow> string \<Rightarrow> real \<Rightarrow> real \<Rightarrow> OptionsStrategy \<Rightarrow> OptionsStrategy" where
  "add_option_leg opt pos k prem s =
     s\<lparr>option_legs := option_legs s @
          [\<lparr>option_type = opt, position = pos, strike = k, premium = prem\<rparr>]\<rparr>"

definition add_stock_leg ::
  "string \<Rightarrow> real \<Rightarrow> int \<Rightarrow> OptionsStrategy \<Rightarrow> OptionsStrategy" where
  "add_stock_leg pos pr qty s =
     s\<lparr>stock_legs := stock_legs s @
          [\<lparr>stock_position = pos, price = pr, quantity = qty\<rparr>]\<rparr>"

text \<open>
  \<^verbatim>\<open>payoff_at_expiration\<close> works on a whole array of terminal prices at once: it
  starts from an array of zeros of the same shape and every leg adds its array of
  contributions, element by element; the stock legs come first.
\<close>

definition stock_payoff_step :: "real list \<Rightarrow> real list \<Rightarrow> StockLeg \<Rightarrow> real list" where
  "stock_payoff_step S_T payoff leg =
     (if stock_position leg = ''long''
      then map2 (+) payoff (map (\<lambda>x. (x - price leg) * real_of_int (quantity leg)) S_T)
      else map2 (+) payoff (map (\<lambda>x. (price leg - x) * real_of_int (quantity leg)) S_T))"

definition option_payoff_step :: "real list \<Rightarrow> real list \<Rightarrow> OptionLeg \<Rightarrow> real list" where
  "option_payoff_step S_T payoff leg =
     (let intrinsic =
            (if option_type leg = ''call'' then map (\<lambda>x. max (x - strike leg) 0) S_T
             else map (\<lambda>x. max (strike leg - x) 0) S_T)
      in if position leg = ''long''
         then map2 (+) payoff (map (\<lambda>v. (v - premium leg) * 100) intrinsic)
         else map2 (+) payoff (map (\<lambda>v. (premium leg - v) * 100) intrinsic))"

definition payoff_at_expiration :: "OptionsStrategy \<Rightarrow> real list \<Rightarrow> real list" where
  "payoff_at_expiration s S_T =
     foldl (option_payoff_step S_T)
       (foldl (stock_payoff_step S_T) (map (\<lambda>_. 0) S_T) (stock_legs s))
       (option_legs s)"

text \<open>\<^verbatim>\<open>current_pnl\<close>: the same legs, the options at their Black-Scholes value.\<close>

definition year_fraction :: "OptionsStrategy \<Rightarrow> real" where
  "year_fraction s = real_of_int (days_to_expiration (market_params s)) / 365"

definition stock_pnl_step :: "real \<Rightarrow> real \<Rightarrow> StockLeg \<Rightarrow> real" where
  "stock_pnl_step S pnl leg =
     (if stock_position leg = ''long''
      then pnl + (S - price leg) * real_of_int (quantity leg)
      else pnl + (price leg - S) * real_of_int (quantity leg))"

definition option_pnl_step :: "MarketParams \<Rightarrow> real \<Rightarrow> real \<Rightarrow> real \<Rightarrow> OptionLeg \<Rightarrow> real" where
  "option_pnl_step mp T S pnl leg =
     (let current_value =
            (if option_type leg = ''call''
             then call_price S (strike leg) T (risk_free_rate mp) (volatility mp)
                    (dividend_yield mp)
             else put_price S (strike leg) T (risk_free_rate mp) (volatility mp)
                    (dividend_yield mp))
      in if position leg = ''long'' then pnl + (current_value - premium leg) * 100
         else pnl + (premium leg - current_value) * 100)"

definition current_pnl :: "OptionsStrategy \<Rightarrow> real \<Rightarrow> real" where
  "current_pnl s S =
     foldl (option_pnl_step (market_params s) (year_fraction s) S)
       (foldl (stock_pnl_step S) 0 (stock_legs s))
       (option_legs s)"

definition current_pnl_array :: "OptionsStrategy \<Rightarrow> real list \<Rightarrow> real list" where
  "current_pnl_array s S_array = map (current_pnl s) S_array"

text \<open>
  \<^verbatim>\<open>greeks\<close> fills a dictionary with the five keys \<^verbatim>\<open>'delta'\<close>, \<^verbatim>\<open>'gamma'\<close>,
  \<^verbatim>\<open>'theta'\<close>, \<^verbatim>\<open>'vega'\<close>, \<^verbatim>\<open>'rho'\<close>, all present from the start and none
  added later: a record with one field for each key.
\<close>

record Greeks =
  greeks_delta :: real
  greeks_gamma :: real
  greeks_theta :: real
  greeks_vega :: real
  greeks_rho :: real

definition greeks_stock_step :: "Greeks \<Rightarrow> StockLeg \<Rightarrow> Greeks" where
  "greeks_stock_step g leg =
     (let multiplier = (if stock_position leg = ''long'' then 1 else - 1)
      in g\<lparr>greeks_delta := greeks_delta g + real_of_int (quantity leg * multiplier)\<rparr>)"

definition greeks_option_step :: "MarketParams \<Rightarrow> real \<Rightarrow> real \<Rightarrow> Greeks \<Rightarrow> OptionLeg \<Rightarrow> Greeks" where
  "greeks_option_step mp T S g leg =
     (let multiplier = (if position leg = ''long'' then 1 else - 1)
      in \<lparr>greeks_delta = greeks_delta g +
            multiplier * delta S (strike leg) T (risk_free_rate mp) (volatility mp)
              (option_type leg) (dividend_yield mp) * 100,
          greeks_gamma = greeks_gamma g +
            multiplier * gamma S (strike leg) T (risk_free_rate mp) (volatility mp)
              (dividend_yield mp) * 100,
          greeks_theta = greeks_theta g +
            multiplier * theta S (strike leg) T (risk_free_rate mp) (volatility mp)
              (option_type leg) (dividend_yield mp) * 100,
          greeks_vega = greeks_vega g +
            multiplier * vega S (strike leg) T (risk_free_rate mp) (volatility mp)
              (dividend_yield mp) * 100,
          greeks_rho = greeks_rho g +
            multiplier * rho S (strike leg) T (risk_free_rate mp) (volatility mp)
              (option_type leg) (dividend_yield mp) * 100\<rparr>)"

definition greeks :: "OptionsStrategy \<Rightarrow> real \<Rightarrow> Greeks" where
  "greeks s S =
     foldl (greeks_option_step (market_params s) (year_fraction s) S)
       (foldl greeks_stock_step
          \<lparr>greeks_delta = 0, greeks_gamma = 0, greeks_theta = 0, greeks_vega = 0,
           greeks_rho = 0\<rparr>
          (stock_legs s))
       (option_legs s)"

text \<open>
  \<^verbatim>\<open>numpy.linspace(start, stop, num)\<close>, a library function: \<open>num\<close> samples
  \<open>start + i * step\<close> with \<open>step = (stop - start) / (num - 1)\<close>, the last one then
  overwritten with \<open>stop\<close> itself. \<^verbatim>\<open>numpy.max\<close> and \<^verbatim>\<open>numpy.min\<close> run through
  the array from its first element; the array that \<^verbatim>\<open>analyze\<close> passes has 500
  elements.
\<close>

definition linspace :: "real \<Rightarrow> real \<Rightarrow> nat \<Rightarrow> real list" where
  "linspace start stop num =
     (let step = (stop - start) / real (num - 1);
          y = map (\<lambda>i. real i * step + start) [0..<num]
      in if num > 1 then y[num - 1 := stop] else y)"

definition np_max :: "real list \<Rightarrow> real" where
  "np_max a = fold max (tl a) (hd a)"

definition np_min :: "real list \<Rightarrow> real" where
  "np_min a = fold min (tl a) (hd a)"

text \<open>
  \<^verbatim>\<open>analyze\<close>. The break-even loop runs \<open>i\<close> over \<^verbatim>\<open>range(len(payoffs) - 1)\<close>
  and appends the interpolated zero crossing of the pair \<open>(i, i + 1)\<close> when the
  product of its two payoffs is negative.
\<close>

record Analysis =
  analysis_current_pnl :: real
  max_profit_at_expiration :: real
  max_loss_at_expiration :: real
  break_even_at_expiration :: "real list"
  analysis_greeks :: Greeks

definition S_range :: "real \<Rightarrow> real list" where
  "S_range S = linspace (S * (1 / 2)) (S * (3 / 2)) 500"

definition break_even_step :: "real list \<Rightarrow> real list \<Rightarrow> real list \<Rightarrow> nat \<Rightarrow> real list" where
  "break_even_step xs payoffs break_evens i =
     (if payoffs ! i * payoffs ! (i + 1) < 0
      then
        let be = xs ! i - payoffs ! i * (xs ! (i + 1) - xs ! i)
                            / (payoffs ! (i + 1) - payoffs ! i)
        in break_evens @ [be]
      else break_evens)"

definition break_even_loop :: "real list \<Rightarrow> real list \<Rightarrow> real list" where
  "break_even_loop xs payoffs =
     foldl (break_even_step xs payoffs) [] [0..<length payoffs - 1]"

definition analyze :: "OptionsStrategy \<Rightarrow> real \<Rightarrow> Analysis" where
  "analyze s S =
     (let payoffs = payoff_at_expiration s (S_range S)
      in \<lparr>analysis_current_pnl = current_pnl s S,
          max_profit_at_expiration = np_max payoffs,
          max_loss_at_expiration = np_min payoffs,
          break_even_at_expiration = break_even_loop (S_range S) payoffs,
          analysis_greeks = greeks s S\<rparr>)"

text \<open>
  The catalog functions only call the two mutators; \<^verbatim>\<open>covered_call\<close> is the
  first of them.
\<close>

definition covered_call :: "real \<Rightarrow> real \<Rightarrow> real \<Rightarrow> MarketParams option \<Rightarrow> OptionsStrategy" where
  "covered_call stock_price call_strike call_premium mp =
     add_option_leg ''call'' ''short'' call_strike call_premium
       (add_stock_leg ''long'' stock_price 100 (init ''Covered Call'' mp))"

subsection \<open>Auxiliary notions for the statements\<close>

text \<open>
  The payoff of a strategy at one terminal price, leg by leg: what
  \<^verbatim>\<open>payoff_at_expiration\<close> computes at each position of its array.
\<close>

definition stock_payoff_point :: "real \<Rightarrow> StockLeg \<Rightarrow> real" where
  "stock_payoff_point x leg =
     (if stock_position leg = ''long'' then (x - price leg) * real_of_int (quantity leg)
      else (price leg - x) * real_of_int (quantity leg))"

definition option_payoff_point :: "real \<Rightarrow> OptionLeg \<Rightarrow> real" where
  "option_payoff_point x leg =
     (let intrinsic = (if option_type leg = ''call'' then max (x - strike leg) 0
                       else max (strike leg - x) 0)
      in if position leg = ''long'' then (intrinsic - premium leg) * 100
         else (premium leg - intrinsic) * 100)"

definition payoff_point :: "OptionsStrategy \<Rightarrow> real \<Rightarrow> real" where
  "payoff_point s x =
     (\<Sum>leg\<leftarrow>stock_legs s. stock_payoff_point x leg)
     + (\<Sum>leg\<leftarrow>option_legs s. option_payoff_point x leg)"

text \<open>
  The tags as the branches of the code read them: every test on an option type is
  \<^verbatim>\<open>== 'call'\<close> with the put formula under \<^verbatim>\<open>else\<close>, every test on a position
  is \<^verbatim>\<open>== 'long'\<close> with the short formula under \<^verbatim>\<open>else\<close>. \<open>retag\<close> rewrites the
  tags of the option legs of a strategy accordingly.
\<close>

definition kind_acted_on :: "string \<Rightarrow> string" where
  "kind_acted_on tag = (if tag = ''call'' then ''call'' else ''put'')"

definition side_acted_on :: "string \<Rightarrow> string" where
  "side_acted_on tag = (if tag = ''long'' then ''long'' else ''short'')"

definition retag_leg :: "OptionLeg \<Rightarrow> OptionLeg" where
  "retag_leg leg =
     leg\<lparr>option_type := kind_acted_on (option_type leg),
         position := side_acted_on (position leg)\<rparr>"

definition retag :: "OptionsStrategy \<Rightarrow> OptionsStrategy" where
  "retag s = s\<lparr>option_legs := map retag_leg (option_legs s)\<rparr>"

subsection \<open>Pricing engine: the degenerate branches\<close>

text \<open>
  C1. For a positive spot and strike and any rates, when \<open>T \<le> 0\<close> or
  \<open>sigma \<le> 0\<close> the call price is exactly \<open>max (S - K) 0\<close> and the put price is
  exactly \<open>max (K - S) 0\<close>, the European intrinsic value.
\<close>

theorem price_degenerate_intrinsic:
  assumes "S > 0" and "K > 0" and "T \<le> 0 \<or> sigma \<le> 0"
  shows "call_price S K T r sigma q = max (S - K) 0
       \<and> put_price S K T r sigma q = max (K - S) 0"
  using assms(3) by (simp add: call_price_def put_price_def)

theorem price_degenerate_intrinsic_witness:
  "call_price 110 100 0 (5 / 100) (25 / 100) 0 = 10
 \<and> put_price 110 100 0 (5 / 100) (25 / 100) 0 = 0"
  using price_degenerate_intrinsic
          [where S = 110 and K = 100 and T = 0 and r = "5 / 100" and sigma = "25 / 100"
             and q = 0]
  by simp

text \<open>
  C8. For a positive spot and strike, any rates and volatility and any option
  type: when \<open>T \<le> 0\<close>, delta is \<open>1\<close> for a call with \<open>S > K\<close> and \<open>0\<close> in every other
  case, so it is \<open>0\<close> for every option that is not a call, whatever \<open>S\<close> and \<open>K\<close>.
\<close>

theorem delta_expired:
  assumes "S > 0" and "K > 0" and "T \<le> 0"
  shows "delta S K T r sigma opt q = (if opt = ''call'' \<and> S > K then 1 else 0)"
  using assms(3) by (simp add: delta_def)

theorem delta_expired_witness:
  "delta 90 100 0 (5 / 100) (25 / 100) ''put'' 0 = 0
 \<and> delta 110 100 0 (5 / 100) (25 / 100) ''call'' 0 = 1"
  using delta_expired
          [where S = 90 and K = 100 and T = 0 and r = "5 / 100" and sigma = "25 / 100"
             and opt = "''put''" and q = 0]
        delta_expired
          [where S = 110 and K = 100 and T = 0 and r = "5 / 100" and sigma = "25 / 100"
             and opt = "''call''" and q = 0]
  by simp

subsection \<open>The normal distribution function\<close>

text \<open>
  The primitive \<open>gauss_int\<close> of the Gaussian kernel: its series converges
  everywhere and its derivative is the kernel.
\<close>

lemma gauss_coeff_even: "even n \<Longrightarrow> gauss_coeff n = 0"
  by (simp add: gauss_coeff_def)

lemma gauss_coeff_odd:
  "gauss_coeff (Suc (2 * k)) = (- 1) ^ k / (2 ^ k * fact k * real (Suc (2 * k)))"
  by (simp add: gauss_coeff_def)

lemma gauss_series_summable: "summable (\<lambda>n. gauss_coeff n * y ^ n)"
proof -
  let ?g = "\<lambda>k. gauss_coeff (Suc (2 * k)) * y ^ Suc (2 * k)"
  have bound: "norm (?g k) \<le> \<bar>y\<bar> * ((y\<^sup>2 / 2) ^ k /\<^sub>R fact k)" for k
  proof -
    have c: "\<bar>gauss_coeff (Suc (2 * k))\<bar> = 1 / (2 ^ k * fact k * real (Suc (2 * k)))"
      unfolding gauss_coeff_odd by (simp add: abs_mult power_abs)
    have "\<bar>y\<bar> ^ (2 * k) = (y\<^sup>2) ^ k"
      by (simp add: power_mult)
    then have p: "\<bar>y ^ Suc (2 * k)\<bar> = \<bar>y\<bar> * (y\<^sup>2) ^ k"
      by (simp only: power_Suc abs_mult power_abs)
    have "norm (?g k) = \<bar>y\<bar> * ((y\<^sup>2 / 2) ^ k / fact k) / real (Suc (2 * k))"
      unfolding real_norm_def abs_mult c p by (simp add: power_divide)
    also have "\<dots> \<le> \<bar>y\<bar> * ((y\<^sup>2 / 2) ^ k / fact k) / 1"
      by (intro divide_left_mono mult_nonneg_nonneg divide_nonneg_nonneg) simp_all
    finally show ?thesis by (simp add: field_simps)
  qed
  have "summable (\<lambda>k. \<bar>y\<bar> * ((y\<^sup>2 / 2) ^ k /\<^sub>R fact k))"
    by (intro summable_mult summable_exp_generic)
  then have "summable ?g"
    by (rule summable_comparison_test') (rule bound)
  then have "?g sums suminf ?g" by (rule summable_sums)
  then have "(\<lambda>n. if even n then 0 else ?g ((n - 1) div 2)) sums suminf ?g"
    by (rule sums_if')
  moreover have "(\<lambda>n. if even n then 0 else ?g ((n - 1) div 2)) = (\<lambda>n. gauss_coeff n * y ^ n)"
  proof
    fix n
    show "(if even n then 0 else ?g ((n - 1) div 2)) = gauss_coeff n * y ^ n"
    proof (cases "even n")
      case True
      then show ?thesis by (simp add: gauss_coeff_even)
    next
      case False
      then have "Suc (2 * ((n - 1) div 2)) = n" by presburger
      with False show ?thesis by simp
    qed
  qed
  ultimately show ?thesis by (simp add: sums_iff)
qed

lemma diffs_gauss_sums: "(\<lambda>n. diffs gauss_coeff n * x ^ n) sums exp (- x\<^sup>2 / 2)"
proof -
  let ?f = "\<lambda>k. (- x\<^sup>2 / 2) ^ k /\<^sub>R fact k"
  have "?f sums exp (- x\<^sup>2 / 2)" by (rule exp_converges)
  moreover have "(\<lambda>_::nat. 0::real) sums 0" by simp
  ultimately have "(\<lambda>n. if even n then ?f (n div 2) else (\<lambda>_. 0) ((n - 1) div 2))
                      sums (0 + exp (- x\<^sup>2 / 2))"
    by (rule sums_if [rotated])
  moreover have "(\<lambda>n. if even n then ?f (n div 2) else 0) = (\<lambda>n. diffs gauss_coeff n * x ^ n)"
  proof
    fix n
    show "(if even n then ?f (n div 2) else 0) = diffs gauss_coeff n * x ^ n"
    proof (cases "even n")
      case True
      then obtain k where n: "n = 2 * k" by (auto elim: evenE)
      have nk: "n div 2 = k" by (simp add: n)
      have dg: "diffs gauss_coeff n = (- 1) ^ k / (2 ^ k * fact k)"
        unfolding diffs_def n gauss_coeff_odd by simp
      have xn: "x ^ n = (x\<^sup>2) ^ k" by (simp add: n power_mult)
      have pw: "(- x\<^sup>2 / 2) ^ k = (- 1) ^ k * (x\<^sup>2) ^ k / 2 ^ k"
      proof -
        have "(- x\<^sup>2 / 2) ^ k = ((- 1) * (x\<^sup>2 / 2)) ^ k" by simp
        also have "\<dots> = (- 1) ^ k * (x\<^sup>2 / 2) ^ k" by (rule power_mult_distrib)
        also have "\<dots> = (- 1) ^ k * (x\<^sup>2) ^ k / 2 ^ k" by (simp add: power_divide)
        finally show ?thesis .
      qed
      have "?f (n div 2) = (- 1) ^ k * (x\<^sup>2) ^ k / 2 ^ k / fact k"
        unfolding nk pw by (simp add: divide_inverse)
      also have "\<dots> = diffs gauss_coeff n * x ^ n"
        unfolding dg xn by simp
      finally show ?thesis using True by simp
    next
      case False
      then show ?thesis by (simp add: diffs_def gauss_coeff_even)
    qed
  qed
  ultimately show ?thesis by simp
qed

lemma DERIV_gauss_int: "DERIV gauss_int x :> exp (- x\<^sup>2 / 2)"
proof -
  have "((\<lambda>x. \<Sum>n. gauss_coeff n * x ^ n) has_field_derivative
          (\<Sum>n. diffs gauss_coeff n * x ^ n)) (at x)"
    by (rule termdiffs_strong_converges_everywhere) (rule gauss_series_summable)
  moreover have "(\<Sum>n. diffs gauss_coeff n * x ^ n) = exp (- x\<^sup>2 / 2)"
    using diffs_gauss_sums [of x] by (simp add: sums_iff)
  moreover have "(\<lambda>x. \<Sum>n. gauss_coeff n * x ^ n) = gauss_int"
    by (simp add: gauss_int_def fun_eq_iff)
  ultimately show ?thesis by simp
qed

text \<open>
  \<open>gauss_int\<close> is odd and increasing, and beyond any \<open>x > 0\<close> it grows by at most
  \<open>exp (- x\<^sup>2 / 2) / x\<close>; so it is bounded, its supremum \<open>gauss_half\<close> is positive,
  and \<open>norm_cdf\<close> is the distribution function with a density proportional to
  the kernel: symmetric, nondecreasing from the limit \<open>0\<close> to the limit \<open>1\<close>, with
  the derivative \<open>exp (- x\<^sup>2 / 2) / (2 * gauss_half)\<close> and a lower tail below the
  density divided by \<open>- x\<close>. (The value of the constant, \<open>2 * gauss_half = sqrt (2 * pi)\<close>,
  is not needed below and not proved.)
\<close>

lemma gauss_int_0: "gauss_int 0 = 0"
proof -
  have "(\<lambda>n. gauss_coeff n * 0 ^ n) = (\<lambda>n. 0)"
    by (rule ext) (simp add: gauss_coeff_even power_0_left)
  then show ?thesis by (simp add: gauss_int_def)
qed

lemma gauss_int_minus: "gauss_int (- x) = - gauss_int x"
proof -
  have "gauss_coeff n * (- x) ^ n = - (gauss_coeff n * x ^ n)" for n
    by (cases "even n") (simp_all add: gauss_coeff_even)
  then have "gauss_int (- x) = (\<Sum>n. - (gauss_coeff n * x ^ n))"
    by (simp add: gauss_int_def)
  also have "\<dots> = - gauss_int x"
    unfolding gauss_int_def by (rule suminf_minus) (rule gauss_series_summable)
  finally show ?thesis .
qed

lemma gauss_int_mono: "x \<le> y \<Longrightarrow> gauss_int x \<le> gauss_int y"
  by (rule DERIV_nonneg_imp_nondecreasing [of x y gauss_int])
     (auto intro!: exI [of _ "exp (- t\<^sup>2 / 2)" for t] DERIV_gauss_int)

lemma gauss_int_strict_mono: "x < y \<Longrightarrow> gauss_int x < gauss_int y"
  by (rule DERIV_pos_imp_increasing [of x y gauss_int])
     (auto intro!: exI [of _ "exp (- t\<^sup>2 / 2)" for t] DERIV_gauss_int)

lemma gauss_tail:
  assumes "0 < x" and "x \<le> y"
  shows "gauss_int y \<le> gauss_int x + exp (- x\<^sup>2 / 2) / x"
proof -
  let ?h = "\<lambda>t. gauss_int t + exp (- t\<^sup>2 / 2) / t"
  have "?h y \<le> ?h x"
  proof (rule DERIV_nonpos_imp_nonincreasing [OF assms(2)])
    fix t
    assume "x \<le> t" "t \<le> y"
    with assms(1) have t: "0 < t" by simp
    have "DERIV ?h t :> exp (- t\<^sup>2 / 2) +
            ((exp (- t\<^sup>2 / 2) * (- (2 * t) / 2)) * t - exp (- t\<^sup>2 / 2) * 1) / (t * t)"
      using t by (auto intro!: derivative_eq_intros DERIV_gauss_int)
    moreover have "exp (- t\<^sup>2 / 2) +
            ((exp (- t\<^sup>2 / 2) * (- (2 * t) / 2)) * t - exp (- t\<^sup>2 / 2) * 1) / (t * t)
          = - exp (- t\<^sup>2 / 2) / (t * t)"
      using t by (simp add: field_simps power2_eq_square)
    moreover have "- exp (- t\<^sup>2 / 2) / (t * t) \<le> 0"
      using t by (simp add: divide_nonpos_pos)
    ultimately show "\<exists>d. DERIV ?h t :> d \<and> d \<le> 0"
      by (intro exI [of _ "- exp (- t\<^sup>2 / 2) / (t * t)"]) simp
  qed
  moreover have "0 \<le> exp (- y\<^sup>2 / 2) / y"
    using assms by simp
  ultimately show ?thesis by linarith
qed

lemma gauss_int_upper:
  assumes "0 < x"
  shows "gauss_int y \<le> gauss_int x + exp (- x\<^sup>2 / 2) / x"
proof (cases "x \<le> y")
  case True
  with assms show ?thesis by (rule gauss_tail)
next
  case False
  then have "gauss_int y \<le> gauss_int x" by (intro gauss_int_mono) simp
  moreover have "0 \<le> exp (- x\<^sup>2 / 2) / x" using assms by simp
  ultimately show ?thesis by linarith
qed

lemma gauss_int_bdd_above: "bdd_above (range gauss_int)"
proof (rule bdd_aboveI)
  fix v
  assume "v \<in> range gauss_int"
  then obtain y where "v = gauss_int y" by blast
  then show "v \<le> gauss_int 1 + exp (- 1\<^sup>2 / 2) / 1"
    using gauss_int_upper [of 1 y] by simp
qed

lemma gauss_int_le_half: "gauss_int x \<le> gauss_half"
  unfolding gauss_half_def by (rule cSup_upper) (simp_all add: gauss_int_bdd_above)

lemma gauss_half_pos: "0 < gauss_half"
proof -
  have "gauss_int 0 < gauss_int 1" by (rule gauss_int_strict_mono) simp
  with gauss_int_le_half [of 1] show ?thesis by (simp add: gauss_int_0)
qed

lemma gauss_half_le:
  assumes "0 < x"
  shows "gauss_half \<le> gauss_int x + exp (- x\<^sup>2 / 2) / x"
  unfolding gauss_half_def
proof (rule cSup_least)
  show "range gauss_int \<noteq> {}" by simp
  fix v
  assume "v \<in> range gauss_int"
  then obtain y where "v = gauss_int y" by blast
  then show "v \<le> gauss_int x + exp (- x\<^sup>2 / 2) / x"
    using gauss_int_upper [OF assms, of y] by simp
qed

lemma norm_cdf_0: "norm_cdf 0 = 1 / 2"
  by (simp add: norm_cdf_def gauss_int_0)

lemma norm_cdf_minus: "norm_cdf (- x) = 1 - norm_cdf x"
  by (simp add: norm_cdf_def gauss_int_minus)

lemma norm_cdf_nonneg: "0 \<le> norm_cdf x"
proof -
  have "- gauss_half \<le> gauss_int x"
    using gauss_int_le_half [of "- x"] by (simp add: gauss_int_minus)
  then have "- 1 \<le> gauss_int x / gauss_half"
    using gauss_half_pos by (simp add: field_simps)
  then show ?thesis by (simp add: norm_cdf_def)
qed

lemma norm_cdf_le_1: "norm_cdf x \<le> 1"
  using norm_cdf_nonneg [of "- x"] by (simp add: norm_cdf_minus)

lemma DERIV_norm_cdf: "DERIV norm_cdf x :> exp (- x\<^sup>2 / 2) / (2 * gauss_half)"
proof -
  have "DERIV (\<lambda>x. 1 / 2 + gauss_int x / (2 * gauss_half)) x
          :> exp (- x\<^sup>2 / 2) / (2 * gauss_half)"
    using gauss_half_pos by (auto intro!: derivative_eq_intros DERIV_gauss_int)
  moreover have "(\<lambda>x. 1 / 2 + gauss_int x / (2 * gauss_half)) = norm_cdf"
    by (simp add: norm_cdf_def fun_eq_iff)
  ultimately show ?thesis by simp
qed

lemma norm_cdf_lower_tail:
  assumes "x < 0"
  shows "norm_cdf x \<le> exp (- x\<^sup>2 / 2) / (2 * gauss_half * (- x))"
proof -
  have "gauss_half \<le> gauss_int (- x) + exp (- (- x)\<^sup>2 / 2) / (- x)"
    using assms by (intro gauss_half_le) simp
  then have "gauss_half + gauss_int x \<le> exp (- x\<^sup>2 / 2) / (- x)"
    by (simp add: gauss_int_minus)
  then have "(gauss_half + gauss_int x) / (2 * gauss_half)
               \<le> exp (- x\<^sup>2 / 2) / (- x) / (2 * gauss_half)"
    using gauss_half_pos by (intro divide_right_mono) simp_all
  moreover have "norm_cdf x = (gauss_half + gauss_int x) / (2 * gauss_half)"
    using gauss_half_pos by (simp add: norm_cdf_def field_simps)
  ultimately show ?thesis by (simp add: field_simps)
qed

lemma norm_cdf_mono: "x \<le> y \<Longrightarrow> norm_cdf x \<le> norm_cdf y"
  using gauss_int_mono [of x y] gauss_half_pos
  by (simp add: norm_cdf_def divide_right_mono)

lemma norm_cdf_at_bot: "(norm_cdf \<longlongrightarrow> 0) at_bot"
proof (rule tendsto_sandwich [where f = "\<lambda>_. 0" and h = "\<lambda>x. (1 / (2 * gauss_half)) * inverse (- x)"])
  show "\<forall>\<^sub>F x in at_bot. 0 \<le> norm_cdf x"
    by (simp add: norm_cdf_nonneg)
  show "\<forall>\<^sub>F x in at_bot. norm_cdf x \<le> (1 / (2 * gauss_half)) * inverse (- x)"
    unfolding eventually_at_bot_linorder
  proof (intro exI [of _ "- 1"] allI impI)
    fix x :: real
    assume "x \<le> - 1"
    then have x: "x < 0" by simp
    have "norm_cdf x \<le> exp (- x\<^sup>2 / 2) / (2 * gauss_half * (- x))"
      by (rule norm_cdf_lower_tail [OF x])
    also have "\<dots> \<le> 1 / (2 * gauss_half * (- x))"
    proof (rule divide_right_mono)
      show "exp (- x\<^sup>2 / 2) \<le> 1" by simp
      have "0 < 2 * gauss_half * (- x)"
        using x gauss_half_pos by (intro mult_pos_pos) simp_all
      then show "0 \<le> 2 * gauss_half * (- x)" by (rule less_imp_le)
    qed
    finally show "norm_cdf x \<le> (1 / (2 * gauss_half)) * inverse (- x)"
      by (simp add: field_simps)
  qed
  show "((\<lambda>_. 0::real) \<longlongrightarrow> 0) at_bot" by simp
  have "((\<lambda>x::real. inverse (- x)) \<longlongrightarrow> 0) at_bot"
    by (intro tendsto_inverse_0_at_top filterlim_uminus_at_top_at_bot)
  then have "((\<lambda>x. (1 / (2 * gauss_half)) * inverse (- x)) \<longlongrightarrow> (1 / (2 * gauss_half)) * 0) at_bot"
    by (rule tendsto_mult_left)
  then show "((\<lambda>x. (1 / (2 * gauss_half)) * inverse (- x)) \<longlongrightarrow> 0) at_bot"
    by simp
qed

lemma norm_cdf_at_top: "(norm_cdf \<longlongrightarrow> 1) at_top"
proof -
  have "((\<lambda>x. norm_cdf (- x)) \<longlongrightarrow> 0) at_top"
    using norm_cdf_at_bot by (rule filterlim_compose) (rule filterlim_uminus_at_bot_at_top)
  then have "((\<lambda>x. 1 - norm_cdf (- x)) \<longlongrightarrow> 1 - 0) at_top"
    by (intro tendsto_diff tendsto_const)
  then show ?thesis
    by (simp add: norm_cdf_minus)
qed

text \<open>The ratio of the distribution function to the kernel is nondecreasing.\<close>

lemma norm_cdf_ratio_mono:
  assumes "x \<le> y"
  shows "norm_cdf x * exp (x\<^sup>2 / 2) \<le> norm_cdf y * exp (y\<^sup>2 / 2)"
proof (rule DERIV_nonneg_imp_nondecreasing [OF assms])
  fix t :: real
  let ?c = "1 / (2 * gauss_half)"
  let ?d = "exp (- t\<^sup>2 / 2) / (2 * gauss_half) * exp (t\<^sup>2 / 2)
            + exp (t\<^sup>2 / 2) * (2 * t / 2) * norm_cdf t"
  have d: "DERIV (\<lambda>t. norm_cdf t * exp (t\<^sup>2 / 2)) t :> ?d"
    by (auto intro!: derivative_eq_intros DERIV_norm_cdf)
  have "exp (- t\<^sup>2 / 2) * exp (t\<^sup>2 / 2) = 1"
    by (simp add: exp_add [symmetric])
  then have eq: "?d = ?c + t * norm_cdf t * exp (t\<^sup>2 / 2)"
    by (simp add: field_simps)
  have "0 \<le> ?c + t * norm_cdf t * exp (t\<^sup>2 / 2)"
  proof (cases "0 \<le> t")
    case True
    then have "0 \<le> t * norm_cdf t * exp (t\<^sup>2 / 2)"
      by (simp add: norm_cdf_nonneg)
    moreover have "0 \<le> ?c" using gauss_half_pos by simp
    ultimately show ?thesis by linarith
  next
    case False
    then have t: "t < 0" by simp
    have "norm_cdf t * exp (t\<^sup>2 / 2)
            \<le> exp (- t\<^sup>2 / 2) / (2 * gauss_half * (- t)) * exp (t\<^sup>2 / 2)"
      by (intro mult_right_mono norm_cdf_lower_tail t) simp
    also have "\<dots> = ?c / (- t)"
      using \<open>exp (- t\<^sup>2 / 2) * exp (t\<^sup>2 / 2) = 1\<close> by (simp add: field_simps)
    finally have "(- t) * (norm_cdf t * exp (t\<^sup>2 / 2)) \<le> (- t) * (?c / (- t))"
      using t by (intro mult_left_mono) simp_all
    then have "- (t * norm_cdf t * exp (t\<^sup>2 / 2)) \<le> ?c"
      using t by (simp add: mult.assoc)
    then show ?thesis by linarith
  qed
  then have "0 \<le> ?d" by (simp only: eq)
  with d show "\<exists>d. DERIV (\<lambda>t. norm_cdf t * exp (t\<^sup>2 / 2)) t :> d \<and> 0 \<le> d"
    by blast
qed

subsection \<open>Put-call parity\<close>

lemma d2_le_d1: "0 < T \<Longrightarrow> 0 < sigma \<Longrightarrow> d2 S K T r sigma q \<le> d1 S K T r sigma q"
  by (simp add: d2_def)

lemma d1_d2_squares:
  assumes "0 < T" and "0 < sigma"
  shows "((d1 S K T r sigma q)\<^sup>2 - (d2 S K T r sigma q)\<^sup>2) / 2 = ln (S / K) + (r - q) * T"
proof -
  define v where "v = sigma * sqrt T"
  define a where "a = d1 S K T r sigma q"
  have v: "v \<noteq> 0" using assms by (simp add: v_def)
  have vv: "v * v = sigma\<^sup>2 * T"
    using assms by (simp add: v_def power2_eq_square)
  have av: "a * v = ln (S / K) + (r - q + (1 / 2) * sigma\<^sup>2) * T"
    using v unfolding a_def d1_def v_def [symmetric] by simp
  have "a\<^sup>2 - (a - v)\<^sup>2 = 2 * (a * v - (v * v) / 2)"
    by (simp add: power2_eq_square algebra_simps)
  then have "(a\<^sup>2 - (a - v)\<^sup>2) / 2 = a * v - (v * v) / 2"
    by simp
  also have "\<dots> = ln (S / K) + (r - q) * T"
    unfolding av vv by (simp add: algebra_simps)
  finally show ?thesis
    by (simp add: a_def d2_def v_def)
qed

lemma exp_d1_d2_squares:
  assumes "0 < S" and "0 < K" and "0 < T" and "0 < sigma"
  shows "exp ((d1 S K T r sigma q)\<^sup>2 / 2)
         = exp ((d2 S K T r sigma q)\<^sup>2 / 2) * (S / K * exp ((r - q) * T))"
proof -
  let ?a = "d1 S K T r sigma q" and ?b = "d2 S K T r sigma q"
  have "?a\<^sup>2 / 2 = ?b\<^sup>2 / 2 + (ln (S / K) + (r - q) * T)"
    using d1_d2_squares [OF assms(3,4), of S K r q] by (simp add: diff_divide_distrib)
  then have "exp (?a\<^sup>2 / 2) = exp (?b\<^sup>2 / 2) * (exp (ln (S / K)) * exp ((r - q) * T))"
    by (simp only: exp_add)
  moreover have "exp (ln (S / K)) = S / K"
    using assms(1,2) by simp
  ultimately show ?thesis by simp
qed

lemma discount_split: "exp ((r - q) * T) * exp (- r * T) = exp (- q * T)" for r q T :: real
  by (simp add: exp_add [symmetric] algebra_simps)

lemma call_value_nonneg:
  assumes "0 < S" and "0 < K" and "0 < T" and "0 < sigma"
  shows "0 \<le> S * exp (- q * T) * norm_cdf (d1 S K T r sigma q)
             - K * exp (- r * T) * norm_cdf (d2 S K T r sigma q)"
proof -
  let ?a = "d1 S K T r sigma q" and ?b = "d2 S K T r sigma q"
  have "norm_cdf ?b * exp (?b\<^sup>2 / 2) \<le> norm_cdf ?a * exp (?a\<^sup>2 / 2)"
    by (rule norm_cdf_ratio_mono) (rule d2_le_d1 [OF assms(3,4)])
  also have "\<dots> = (norm_cdf ?a * (S / K * exp ((r - q) * T))) * exp (?b\<^sup>2 / 2)"
    by (simp add: exp_d1_d2_squares [OF assms])
  finally have "norm_cdf ?b \<le> norm_cdf ?a * (S / K * exp ((r - q) * T))"
    by (simp only: mult_le_cancel_right_pos exp_gt_zero)
  then have "(K * exp (- r * T)) * norm_cdf ?b
               \<le> (K * exp (- r * T)) * (norm_cdf ?a * (S / K * exp ((r - q) * T)))"
    using assms(2) by (intro mult_left_mono) simp_all
  also have "\<dots> = S * (exp ((r - q) * T) * exp (- r * T)) * norm_cdf ?a"
    using assms(2) by simp
  also have "\<dots> = S * exp (- q * T) * norm_cdf ?a"
    by (simp only: discount_split)
  finally show ?thesis by simp
qed

lemma put_value_nonneg:
  assumes "0 < S" and "0 < K" and "0 < T" and "0 < sigma"
  shows "0 \<le> K * exp (- r * T) * norm_cdf (- d2 S K T r sigma q)
             - S * exp (- q * T) * norm_cdf (- d1 S K T r sigma q)"
proof -
  let ?a = "d1 S K T r sigma q" and ?b = "d2 S K T r sigma q"
  have "norm_cdf (- ?a) * exp ((- ?a)\<^sup>2 / 2) \<le> norm_cdf (- ?b) * exp ((- ?b)\<^sup>2 / 2)"
    by (rule norm_cdf_ratio_mono) (simp add: d2_le_d1 [OF assms(3,4)])
  then have "norm_cdf (- ?a) * exp (?a\<^sup>2 / 2) \<le> norm_cdf (- ?b) * exp (?b\<^sup>2 / 2)"
    by simp
  moreover have "norm_cdf (- ?a) * exp (?a\<^sup>2 / 2)
                 = (norm_cdf (- ?a) * (S / K * exp ((r - q) * T))) * exp (?b\<^sup>2 / 2)"
    by (simp add: exp_d1_d2_squares [OF assms])
  ultimately have "norm_cdf (- ?a) * (S / K * exp ((r - q) * T)) \<le> norm_cdf (- ?b)"
    by (simp only: mult_le_cancel_right_pos exp_gt_zero)
  then have le: "(K * exp (- r * T)) * (norm_cdf (- ?a) * (S / K * exp ((r - q) * T)))
               \<le> (K * exp (- r * T)) * norm_cdf (- ?b)"
    using assms(2) by (intro mult_left_mono) simp_all
  have "S * exp (- q * T) * norm_cdf (- ?a)
          = S * (exp ((r - q) * T) * exp (- r * T)) * norm_cdf (- ?a)"
    by (simp only: discount_split)
  also have "\<dots> = (K * exp (- r * T)) * (norm_cdf (- ?a) * (S / K * exp ((r - q) * T)))"
    using assms(2) by simp
  also note le
  finally show ?thesis by simp
qed

text \<open>
  C2. For a positive spot, strike, time to expiry and volatility and any rates,
  both Black-Scholes values are non-negative, so the floor \<open>max _ 0\<close> leaves each
  price as its formula gives it, and the call price minus the put price is
  \<open>S * exp (- q * T) - K * exp (- r * T)\<close>.
\<close>

theorem put_call_parity:
  assumes "S > 0" and "K > 0" and "T > 0" and "sigma > 0"
  shows "call_price S K T r sigma q =
           S * exp (- q * T) * norm_cdf (d1 S K T r sigma q)
           - K * exp (- r * T) * norm_cdf (d2 S K T r sigma q)
       \<and> put_price S K T r sigma q =
           K * exp (- r * T) * norm_cdf (- d2 S K T r sigma q)
           - S * exp (- q * T) * norm_cdf (- d1 S K T r sigma q)
       \<and> 0 \<le> call_price S K T r sigma q \<and> 0 \<le> put_price S K T r sigma q
       \<and> call_price S K T r sigma q - put_price S K T r sigma q
           = S * exp (- q * T) - K * exp (- r * T)"
proof -
  let ?a = "d1 S K T r sigma q" and ?b = "d2 S K T r sigma q"
  have c: "call_price S K T r sigma q =
             S * exp (- q * T) * norm_cdf ?a - K * exp (- r * T) * norm_cdf ?b"
    using assms(3,4) call_value_nonneg [OF assms, of q r]
    by (simp add: call_price_def Let_def max_def)
  have p: "put_price S K T r sigma q =
             K * exp (- r * T) * norm_cdf (- ?b) - S * exp (- q * T) * norm_cdf (- ?a)"
    using assms(3,4) put_value_nonneg [OF assms, of r q]
    by (simp add: put_price_def Let_def max_def)
  have nonneg: "0 \<le> call_price S K T r sigma q" "0 \<le> put_price S K T r sigma q"
    unfolding c p by (rule call_value_nonneg [OF assms], rule put_value_nonneg [OF assms])
  have "call_price S K T r sigma q - put_price S K T r sigma q
          = S * exp (- q * T) - K * exp (- r * T)"
    unfolding c p by (simp add: norm_cdf_minus algebra_simps)
  with c p nonneg show ?thesis by simp
qed

theorem put_call_parity_witness:
  "call_price 100 100 (30 / 365) (5 / 100) (25 / 100) 0
     - put_price 100 100 (30 / 365) (5 / 100) (25 / 100) 0
   = 100 * exp (- 0 * (30 / 365)) - 100 * exp (- (5 / 100) * (30 / 365))"
  using put_call_parity [where S = 100 and K = 100 and T = "30 / 365" and r = "5 / 100"
          and sigma = "25 / 100" and q = 0]
  by simp

subsection \<open>Payoff at expiration, the grid and the extrema\<close>

lemma break_even_foldl:
  "foldl (break_even_step xs p) acc js =
     acc @ map (\<lambda>i. xs ! i - p ! i * (xs ! (i + 1) - xs ! i) / (p ! (i + 1) - p ! i))
             (filter (\<lambda>i. p ! i * p ! (i + 1) < 0) js)"
  by (induction js arbitrary: acc) (simp_all add: break_even_step_def)

lemma break_even_loop_eq:
  "break_even_loop xs p =
     map (\<lambda>i. xs ! i - p ! i * (xs ! (i + 1) - xs ! i) / (p ! (i + 1) - p ! i))
       (filter (\<lambda>i. p ! i * p ! (i + 1) < 0) [0..<length p - 1])"
  by (simp add: break_even_loop_def break_even_foldl)

lemma length_stock_fold:
  "length payoff = length S_T \<Longrightarrow>
   length (foldl (stock_payoff_step S_T) payoff legs) = length S_T"
  by (induction legs arbitrary: payoff) (simp_all add: stock_payoff_step_def)

lemma length_option_fold:
  "length payoff = length S_T \<Longrightarrow>
   length (foldl (option_payoff_step S_T) payoff legs) = length S_T"
  by (induction legs arbitrary: payoff) (simp_all add: option_payoff_step_def Let_def)

lemma length_payoff_at_expiration:
  "length (payoff_at_expiration s S_T) = length S_T"
  by (simp add: payoff_at_expiration_def length_option_fold length_stock_fold)

lemma length_linspace: "length (linspace a b n) = n"
  by (simp add: linspace_def Let_def)

lemma nth_linspace:
  assumes "i < n"
  shows "linspace a b n ! i = a + real i * ((b - a) / real (n - 1))"
proof (cases "i = n - 1 \<and> n > 1")
  case True
  then have "linspace a b n ! i = b"
    by (simp add: linspace_def Let_def)
  moreover from True have "real (n - 1) \<noteq> 0" by simp
  ultimately show ?thesis using True by (simp add: field_simps)
next
  case False
  with assms show ?thesis
    by (auto simp add: linspace_def Let_def)
qed

lemma length_S_range: "length (S_range S) = 500"
  by (simp add: S_range_def length_linspace)

lemma nth_S_range: "i < 500 \<Longrightarrow> S_range S ! i = S / 2 + real i * (S / 499)"
  by (simp add: S_range_def nth_linspace)

lemma sign_change_iff:
  "(a * b < 0) = ((a < 0 \<and> 0 < b) \<or> (0 < a \<and> b < (0::real)))"
  by (auto simp add: mult_less_0_iff)

lemma interp_between:
  fixes x y a b :: real
  assumes "x < y" and "a * b < 0"
  shows "x < x - a * (y - x) / (b - a)" and "x - a * (y - x) / (b - a) < y"
proof -
  have ab: "(a < 0 \<and> 0 < b) \<or> (0 < a \<and> b < 0)"
    using assms(2) by (simp add: sign_change_iff)
  define t where "t = - a / (b - a)"
  have t: "0 < t \<and> t < 1"
    using ab unfolding t_def by (auto simp add: field_simps)
  have eq: "x - a * (y - x) / (b - a) = x + t * (y - x)"
    unfolding t_def by (simp add: field_simps)
  have "0 < t * (y - x)" using t assms(1) by simp
  then show "x < x - a * (y - x) / (b - a)" unfolding eq by simp
  have "t * (y - x) < 1 * (y - x)"
    using t assms(1) by (intro mult_strict_right_mono) auto
  then show "x - a * (y - x) / (b - a) < y" unfolding eq by simp
qed

lemma map2_same: "map2 f (map g xs) (map h xs) = map (\<lambda>x. f (g x) (h x)) xs"
  by (induction xs) simp_all

lemma stock_fold_pointwise:
  "foldl (stock_payoff_step S_T) (map f S_T) legs =
     map (\<lambda>x. f x + (\<Sum>leg\<leftarrow>legs. stock_payoff_point x leg)) S_T"
proof (induction legs arbitrary: f)
  case Nil
  show ?case by simp
next
  case (Cons leg legs)
  have "stock_payoff_step S_T (map f S_T) leg = map (\<lambda>x. f x + stock_payoff_point x leg) S_T"
    by (simp add: stock_payoff_step_def stock_payoff_point_def map2_same)
  then show ?case
    by (simp add: Cons.IH add.assoc)
qed

lemma option_fold_pointwise:
  "foldl (option_payoff_step S_T) (map f S_T) legs =
     map (\<lambda>x. f x + (\<Sum>leg\<leftarrow>legs. option_payoff_point x leg)) S_T"
proof (induction legs arbitrary: f)
  case Nil
  show ?case by simp
next
  case (Cons leg legs)
  have "option_payoff_step S_T (map f S_T) leg = map (\<lambda>x. f x + option_payoff_point x leg) S_T"
    by (simp add: option_payoff_step_def option_payoff_point_def Let_def map2_same)
  then show ?case
    by (simp add: Cons.IH add.assoc)
qed

lemma payoff_at_expiration_pointwise:
  "payoff_at_expiration s S_T = map (payoff_point s) S_T"
  by (simp add: payoff_at_expiration_def stock_fold_pointwise option_fold_pointwise
        payoff_point_def)

lemma np_max_eq: "a \<noteq> [] \<Longrightarrow> np_max a = Max (set a)"
  by (cases a) (simp_all add: np_max_def Max.set_eq_fold [symmetric])

lemma np_min_eq: "a \<noteq> [] \<Longrightarrow> np_min a = Min (set a)"
  by (cases a) (simp_all add: np_min_def Min.set_eq_fold [symmetric])

lemma payoffs_nonempty: "payoff_at_expiration s (S_range S) \<noteq> []"
  using length_payoff_at_expiration [of s "S_range S"] length_S_range [of S] by auto

text \<open>
  C5. \<^verbatim>\<open>analyze\<close> evaluates the payoff on the grid \<open>S_range S\<close>, which has exactly
  500 points, starts at \<open>0.5 * S\<close>, ends at \<open>1.5 * S\<close> and has the same distance
  \<open>(1.5 * S - 0.5 * S) / 499\<close> between any two neighbours; the reported maximum
  profit and maximum loss are the greatest and the least payoff over that grid.
  This holds for every strategy and every spot, positive or not.
\<close>

theorem analyze_grid_and_extrema:
  "length (S_range S) = 500
   \<and> hd (S_range S) = 0.5 * S
   \<and> last (S_range S) = 1.5 * S
   \<and> (\<forall>i<499. S_range S ! (i + 1) - S_range S ! i = (1.5 * S - 0.5 * S) / 499)
   \<and> max_profit_at_expiration (analyze s S) = Max (set (payoff_at_expiration s (S_range S)))
   \<and> max_loss_at_expiration (analyze s S) = Min (set (payoff_at_expiration s (S_range S)))"
proof -
  have ne: "S_range S \<noteq> []" using length_S_range [of S] by auto
  have h: "hd (S_range S) = 0.5 * S"
    using nth_S_range [of 0 S] ne by (simp add: hd_conv_nth)
  have l: "last (S_range S) = 1.5 * S"
    using nth_S_range [of 499 S] ne by (simp add: last_conv_nth length_S_range)
  have sp: "\<forall>i<499. S_range S ! (i + 1) - S_range S ! i = (1.5 * S - 0.5 * S) / 499"
    by (simp add: nth_S_range field_simps)
  show ?thesis
    using h l sp
    by (simp add: length_S_range analyze_def Let_def np_max_eq np_min_eq payoffs_nonempty)
qed

theorem analyze_grid_and_extrema_witness:
  "length (S_range 100) = 500 \<and> hd (S_range 100) = 50 \<and> last (S_range 100) = 150
   \<and> S_range 100 ! (7 + 1) - S_range 100 ! 7 = 100 / 499
   \<and> max_profit_at_expiration (analyze (covered_call 100 105 2 None) 100) =
       Max (set (payoff_at_expiration (covered_call 100 105 2 None) (S_range 100)))
   \<and> max_loss_at_expiration (analyze (covered_call 100 105 2 None) 100) =
       Min (set (payoff_at_expiration (covered_call 100 105 2 None) (S_range 100)))"
proof -
  note t = analyze_grid_and_extrema [of 100 "covered_call 100 105 2 None"]
  from t have "\<forall>i<499. S_range 100 ! (i + 1) - S_range 100 ! i = (1.5 * 100 - 0.5 * 100) / 499"
    by blast
  then have "S_range 100 ! (7 + 1) - S_range 100 ! 7 = (1.5 * 100 - 0.5 * 100) / 499"
    by (rule allE [where x = 7]) simp
  with t show ?thesis by simp
qed

subsection \<open>Break-even detection\<close>


lemma interp_between_rev:
  fixes x y a b :: real
  assumes "y < x" and "a * b < 0"
  shows "y < x - a * (y - x) / (b - a)" and "x - a * (y - x) / (b - a) < x"
proof -
  have ab: "(a < 0 \<and> 0 < b) \<or> (0 < a \<and> b < 0)"
    using assms(2) by (simp add: sign_change_iff)
  define t where "t = - a / (b - a)"
  have t: "0 < t \<and> t < 1"
    using ab unfolding t_def by (auto simp add: field_simps)
  have "b - a \<noteq> 0" using ab by auto
  then have eq: "x - a * (y - x) / (b - a) = x - t * (x - y)"
    unfolding t_def by (simp add: field_simps)
  have "0 < t * (x - y)" using t assms(1) by simp
  then show "x - a * (y - x) / (b - a) < x" unfolding eq by simp
  have "t * (x - y) < 1 * (x - y)"
    using t assms(1) by (intro mult_strict_right_mono) auto
  then show "y < x - a * (y - x) / (b - a)" unfolding eq by simp
qed

lemma S_range_mono:
  assumes "0 < S" and "i \<le> j" and "j < 500"
  shows "S_range S ! i \<le> S_range S ! j"
proof -
  have "real i * (S / 499) \<le> real j * (S / 499)"
    using assms by (intro mult_right_mono) auto
  then show ?thesis using assms by (simp add: nth_S_range)
qed

lemma S_range_antimono:
  assumes "S < 0" and "i \<le> j" and "j < 500"
  shows "S_range S ! j \<le> S_range S ! i"
proof -
  have "real j * (S / 499) \<le> real i * (S / 499)"
    using assms by (intro mult_right_mono_neg) auto
  then show ?thesis using assms by (simp add: nth_S_range)
qed

lemma S_range_step_pos: "0 < S \<Longrightarrow> i < 499 \<Longrightarrow> S_range S ! i < S_range S ! (i + 1)"
  by (simp add: nth_S_range field_simps)

lemma S_range_step_neg: "S < 0 \<Longrightarrow> i < 499 \<Longrightarrow> S_range S ! (i + 1) < S_range S ! i"
  by (simp add: nth_S_range field_simps)

lemma break_even_mem:
  assumes "b \<in> set (break_even_at_expiration (analyze s S))"
  obtains i where "i < 499"
    and "payoff_at_expiration s (S_range S) ! i * payoff_at_expiration s (S_range S) ! (i + 1) < 0"
    and "b = S_range S ! i - payoff_at_expiration s (S_range S) ! i
               * (S_range S ! (i + 1) - S_range S ! i)
               / (payoff_at_expiration s (S_range S) ! (i + 1)
                  - payoff_at_expiration s (S_range S) ! i)"
  using assms
  by (auto simp add: analyze_def Let_def break_even_loop_eq length_payoff_at_expiration
        length_S_range)

lemma break_even_not_grid_point:
  assumes "b \<in> set (break_even_at_expiration (analyze s S))" and "j < 500"
  shows "b \<noteq> S_range S ! j"
proof -
  let ?xs = "S_range S"
  let ?p = "payoff_at_expiration s ?xs"
  from assms(1) obtain i where i: "i < 499" "?p ! i * ?p ! (i + 1) < 0"
    and b: "b = ?xs ! i - ?p ! i * (?xs ! (i + 1) - ?xs ! i) / (?p ! (i + 1) - ?p ! i)"
    by (rule break_even_mem)
  consider "0 < S" | "S < 0" | "S = 0" by linarith
  then show ?thesis
  proof cases
    case 1
    from interp_between [OF S_range_step_pos [OF 1 i(1)] i(2)] b
    have lt: "?xs ! i < b" "b < ?xs ! (i + 1)" by simp_all
    show ?thesis
    proof (cases "j \<le> i")
      case True
      then have "?xs ! j \<le> ?xs ! i" using S_range_mono [OF 1, of j i] i(1) by simp
      with lt show ?thesis by simp
    next
      case False
      then have "?xs ! (i + 1) \<le> ?xs ! j"
        using S_range_mono [OF 1, of "i + 1" j] assms(2) by simp
      with lt show ?thesis by simp
    qed
  next
    case 2
    from interp_between_rev [OF S_range_step_neg [OF 2 i(1)] i(2)] b
    have lt: "?xs ! (i + 1) < b" "b < ?xs ! i" by simp_all
    show ?thesis
    proof (cases "j \<le> i")
      case True
      then have "?xs ! i \<le> ?xs ! j" using S_range_antimono [OF 2, of j i] i(1) by simp
      with lt show ?thesis by simp
    next
      case False
      then have "?xs ! j \<le> ?xs ! (i + 1)"
        using S_range_antimono [OF 2, of "i + 1" j] assms(2) by simp
      with lt show ?thesis by simp
    qed
  next
    case 3
    have "?p ! i = payoff_point s 0" "?p ! (i + 1) = payoff_point s 0"
      using i(1) 3 by (simp_all add: payoff_at_expiration_pointwise length_S_range nth_S_range)
    with i(2) have False by (auto simp add: mult_less_0_iff)
    then show ?thesis ..
  qed
qed

lemma break_even_foldl_skip:
  assumes "\<And>i. i \<in> set js \<Longrightarrow> \<not> keep i \<Longrightarrow> \<not> p ! i * p ! (i + 1) < 0"
  shows "foldl (break_even_step xs p) acc js = foldl (break_even_step xs p) acc (filter keep js)"
  using assms
proof (induction js arbitrary: acc)
  case Nil
  show ?case by simp
next
  case (Cons i js)
  show ?case
  proof (cases "keep i")
    case True
    with Cons show ?thesis by simp
  next
    case False
    with Cons.prems have "break_even_step xs p acc i = acc"
      by (simp add: break_even_step_def)
    with False Cons show ?thesis by simp
  qed
qed



text \<open>
  C10. If the payoff at grid point \<open>j\<close> is exactly zero, the two pairs that contain
  \<open>j\<close> emit nothing: the reported list is the one the loop produces when it skips
  them. The grid point itself is not among the reported break-evens.
\<close>

theorem zero_payoff_pairs_emit_nothing:
  assumes "j < 500" and "payoff_at_expiration s (S_range S) ! j = 0"
  shows "break_even_at_expiration (analyze s S) =
           foldl (break_even_step (S_range S) (payoff_at_expiration s (S_range S))) []
             (filter (\<lambda>i. i \<noteq> j \<and> i + 1 \<noteq> j) [0..<499])
       \<and> S_range S ! j \<notin> set (break_even_at_expiration (analyze s S))"
proof -
  let ?xs = "S_range S"
  let ?p = "payoff_at_expiration s ?xs"
  have "\<not> ?p ! i * ?p ! (i + 1) < 0" if "\<not> (i \<noteq> j \<and> i + 1 \<noteq> j)" for i
    using that assms(2) by auto
  then have "foldl (break_even_step ?xs ?p) [] [0..<499] =
             foldl (break_even_step ?xs ?p) [] (filter (\<lambda>i. i \<noteq> j \<and> i + 1 \<noteq> j) [0..<499])"
    by (intro break_even_foldl_skip) blast
  moreover have "break_even_at_expiration (analyze s S) = foldl (break_even_step ?xs ?p) [] [0..<499]"
    by (simp add: analyze_def Let_def break_even_loop_def length_payoff_at_expiration
          length_S_range)
  moreover have "?xs ! j \<notin> set (break_even_at_expiration (analyze s S))"
    using break_even_not_grid_point [OF _ assms(1)] by blast
  ultimately show ?thesis by simp
qed

theorem zero_payoff_pairs_emit_nothing_witness:
  "payoff_at_expiration (add_stock_leg ''long'' 50 1 (init ''Stock'' None)) (S_range 100) ! 0 = 0
   \<and> break_even_at_expiration (analyze (add_stock_leg ''long'' 50 1 (init ''Stock'' None)) 100) =
       foldl (break_even_step (S_range 100)
                (payoff_at_expiration (add_stock_leg ''long'' 50 1 (init ''Stock'' None))
                   (S_range 100))) []
         (filter (\<lambda>i. i \<noteq> 0 \<and> i + 1 \<noteq> 0) [0..<499])
   \<and> S_range 100 ! 0 \<notin> set (break_even_at_expiration
        (analyze (add_stock_leg ''long'' 50 1 (init ''Stock'' None)) 100))"
proof -
  let ?s = "add_stock_leg ''long'' 50 1 (init ''Stock'' None)"
  have z: "payoff_at_expiration ?s (S_range 100) ! 0 = 0"
    by (simp add: payoff_at_expiration_pointwise payoff_point_def add_stock_leg_def
          init_def stock_payoff_point_def length_S_range nth_S_range)
  have j: "(0::nat) < 500" by simp
  from zero_payoff_pairs_emit_nothing [OF j z] z show ?thesis by blast
qed

subsection \<open>Aggregated Greeks\<close>

lemma greeks_stock_fold:
  "foldl greeks_stock_step g legs =
     g\<lparr>greeks_delta := greeks_delta g +
          (\<Sum>leg\<leftarrow>legs. real_of_int (if stock_position leg = ''long'' then quantity leg
                                       else - quantity leg))\<rparr>"
  by (induction legs arbitrary: g) (simp_all add: greeks_stock_step_def Let_def)

lemma greeks_option_fold:
  "foldl (greeks_option_step mp T S) g legs =
     \<lparr>greeks_delta = greeks_delta g +
        (\<Sum>leg\<leftarrow>legs. (if position leg = ''long'' then 1 else - 1)
            * delta S (strike leg) T (risk_free_rate mp) (volatility mp) (option_type leg)
                (dividend_yield mp) * 100),
      greeks_gamma = greeks_gamma g +
        (\<Sum>leg\<leftarrow>legs. (if position leg = ''long'' then 1 else - 1)
            * gamma S (strike leg) T (risk_free_rate mp) (volatility mp) (dividend_yield mp)
            * 100),
      greeks_theta = greeks_theta g +
        (\<Sum>leg\<leftarrow>legs. (if position leg = ''long'' then 1 else - 1)
            * theta S (strike leg) T (risk_free_rate mp) (volatility mp) (option_type leg)
                (dividend_yield mp) * 100),
      greeks_vega = greeks_vega g +
        (\<Sum>leg\<leftarrow>legs. (if position leg = ''long'' then 1 else - 1)
            * vega S (strike leg) T (risk_free_rate mp) (volatility mp) (dividend_yield mp)
            * 100),
      greeks_rho = greeks_rho g +
        (\<Sum>leg\<leftarrow>legs. (if position leg = ''long'' then 1 else - 1)
            * rho S (strike leg) T (risk_free_rate mp) (volatility mp) (option_type leg)
                (dividend_yield mp) * 100)\<rparr>"
proof (induction legs arbitrary: g)
  case Nil
  show ?case by simp
next
  case (Cons leg legs)
  show ?case
    by (simp only: foldl_Cons Cons.IH) (simp add: greeks_option_step_def Let_def)
qed

text \<open>
  C7. Each aggregated Greek is the sum over the option legs of the Greek of the leg
  times its sign (\<open>+1\<close> for a long leg, \<open>-1\<close> otherwise) times \<open>100\<close>; delta has in
  addition the sum over the stock legs of the signed quantity (\<open>+quantity\<close> for a
  long leg, \<open>-quantity\<close> otherwise). The stock legs occur in no other Greek:
  gamma, theta, vega and rho are what they are without the stock legs.
\<close>

theorem greeks_aggregate:
  "(let mp = market_params s; T = year_fraction s;
        r = risk_free_rate mp; sigma = volatility mp; q = dividend_yield mp;
        sign = (\<lambda>tag. if tag = ''long'' then 1 else - 1 :: real)
    in greeks_delta (greeks s S) =
         (\<Sum>leg\<leftarrow>option_legs s.
            sign (position leg) * delta S (strike leg) T r sigma (option_type leg) q * 100)
         + (\<Sum>leg\<leftarrow>stock_legs s.
              real_of_int (if stock_position leg = ''long'' then quantity leg
                           else - quantity leg))
     \<and> greeks_gamma (greeks s S) =
         (\<Sum>leg\<leftarrow>option_legs s. sign (position leg) * gamma S (strike leg) T r sigma q * 100)
     \<and> greeks_theta (greeks s S) =
         (\<Sum>leg\<leftarrow>option_legs s.
            sign (position leg) * theta S (strike leg) T r sigma (option_type leg) q * 100)
     \<and> greeks_vega (greeks s S) =
         (\<Sum>leg\<leftarrow>option_legs s. sign (position leg) * vega S (strike leg) T r sigma q * 100)
     \<and> greeks_rho (greeks s S) =
         (\<Sum>leg\<leftarrow>option_legs s.
            sign (position leg) * rho S (strike leg) T r sigma (option_type leg) q * 100)
     \<and> greeks_gamma (greeks s S) = greeks_gamma (greeks (s\<lparr>stock_legs := []\<rparr>) S)
     \<and> greeks_theta (greeks s S) = greeks_theta (greeks (s\<lparr>stock_legs := []\<rparr>) S)
     \<and> greeks_vega (greeks s S) = greeks_vega (greeks (s\<lparr>stock_legs := []\<rparr>) S)
     \<and> greeks_rho (greeks s S) = greeks_rho (greeks (s\<lparr>stock_legs := []\<rparr>) S))"
  by (simp add: greeks_def greeks_option_fold greeks_stock_fold year_fraction_def Let_def)

subsection \<open>Parameters and tags are not validated\<close>

text \<open>
  C3, as the code has it. The mutators append the leg they are given, whatever its
  strike, price or quantity, and change nothing else; the market parameters are
  stored as they are given. No operation rejects a parameter.
\<close>

theorem legs_appended_unchecked:
  "add_option_leg opt pos k prem s =
     s\<lparr>option_legs := option_legs s @
          [\<lparr>option_type = opt, position = pos, strike = k, premium = prem\<rparr>]\<rparr>
   \<and> add_stock_leg spos pr qty s =
     s\<lparr>stock_legs := stock_legs s @ [\<lparr>stock_position = spos, price = pr, quantity = qty\<rparr>]\<rparr>
   \<and> market_params (init nm (Some mp)) = mp"
  by (simp add: add_option_leg_def add_stock_leg_def init_def)

text \<open>
  C3 as stated fails: a call with strike \<open>-5\<close>, a stock leg with price \<open>0\<close> and a
  volatility of \<open>-1\<close> are all accepted.
\<close>

theorem invalid_parameters_accepted:
  "option_legs (add_option_leg ''call'' ''long'' (- 5) 1 (init ''test'' None)) =
     [\<lparr>option_type = ''call'', position = ''long'', strike = - 5, premium = 1\<rparr>]
   \<and> stock_legs (add_stock_leg ''long'' 0 100 (init ''test'' None)) =
     [\<lparr>stock_position = ''long'', price = 0, quantity = 100\<rparr>]
   \<and> volatility (market_params (init ''test''
        (Some \<lparr>risk_free_rate = 5 / 100, volatility = - 1, dividend_yield = 0,
               days_to_expiration = 30\<rparr>))) = - 1"
  by (simp add: add_option_leg_def add_stock_leg_def init_def)

lemma retag_option_payoff_step:
  "option_payoff_step S_T payoff (retag_leg leg) = option_payoff_step S_T payoff leg"
  by (simp add: option_payoff_step_def retag_leg_def kind_acted_on_def side_acted_on_def)

lemma retag_option_pnl_step:
  "option_pnl_step mp T S pnl (retag_leg leg) = option_pnl_step mp T S pnl leg"
  by (simp add: option_pnl_step_def retag_leg_def kind_acted_on_def side_acted_on_def)

lemma retag_delta: "delta S K T r sigma (kind_acted_on opt) q = delta S K T r sigma opt q"
  by (simp add: delta_def kind_acted_on_def)

lemma retag_theta: "theta S K T r sigma (kind_acted_on opt) q = theta S K T r sigma opt q"
  by (simp add: theta_def kind_acted_on_def)

lemma retag_rho: "rho S K T r sigma (kind_acted_on opt) q = rho S K T r sigma opt q"
  by (simp add: rho_def kind_acted_on_def)

lemma retag_greeks_option_step:
  "greeks_option_step mp T S g (retag_leg leg) = greeks_option_step mp T S g leg"
  by (simp add: greeks_option_step_def retag_leg_def retag_delta retag_theta retag_rho)
     (simp add: side_acted_on_def)

lemma foldl_retag:
  assumes "\<And>a leg. f a (retag_leg leg) = f a leg"
  shows "foldl f a (map retag_leg legs) = foldl f a legs"
  by (induction legs arbitrary: a) (simp_all add: assms)

text \<open>
  C4, as the code has it. No operation signals an error for a tag: an option type
  other than \<^verbatim>\<open>'call'\<close> is priced as a put and a position other than \<^verbatim>\<open>'long'\<close>
  is taken as short, in \<^verbatim>\<open>payoff_at_expiration\<close>, \<^verbatim>\<open>current_pnl\<close>,
  \<^verbatim>\<open>greeks\<close> and \<^verbatim>\<open>delta\<close>.
\<close>

theorem unrecognised_tags_default:
  "payoff_at_expiration s S_T = payoff_at_expiration (retag s) S_T
   \<and> current_pnl s S = current_pnl (retag s) S
   \<and> greeks s S = greeks (retag s) S
   \<and> delta S K T r sigma opt q = delta S K T r sigma (kind_acted_on opt) q"
  by (simp add: payoff_at_expiration_def current_pnl_def greeks_def retag_def
        year_fraction_def foldl_retag retag_option_payoff_step retag_option_pnl_step
        retag_greeks_option_step retag_delta)

text \<open>
  C4 as stated fails: a leg tagged \<^verbatim>\<open>'binary'\<close> and \<^verbatim>\<open>'flat'\<close> with strike 100
  and premium 5 is valued at the price 90 as a short put, \<open>(5 - 10) * 100\<close>, and its
  delta at expiry is a number.
\<close>

theorem unrecognised_tags_no_error:
  "payoff_at_expiration (add_option_leg ''binary'' ''flat'' 100 5 (init ''test'' None)) [90]
     = [- 500]
   \<and> current_pnl (add_option_leg ''binary'' ''flat'' 100 5 (init ''test''
        (Some \<lparr>risk_free_rate = 5 / 100, volatility = 25 / 100, dividend_yield = 0,
               days_to_expiration = 0\<rparr>))) 90 = - 500
   \<and> delta 110 100 0 (5 / 100) (25 / 100) ''binary'' 0 = 0"
  by (simp add: payoff_at_expiration_def option_payoff_step_def current_pnl_def
        option_pnl_step_def year_fraction_def put_price_def delta_def add_option_leg_def
        init_def)

end
